theory Spec2Isabelle
  imports Main "HOL-Library.Sublist"
begin

text \<open>
  The terminology routes of the FHIR backend: the relevance score, the autocomplete
  search, the forward and reverse lookups of mappings, Translate and the dual-code
  lookup. The stores the handlers query are lists of rows; a handler is a function of
  the store and of the request that reached it, and returns its response or its error.
\<close>

section \<open>Strings\<close>

text \<open>
  A JavaScript string is a sequence of UTF-16 code units. The model writes it as a
  \<^typ>\<open>string\<close>, one \<^typ>\<open>char\<close> for each code unit, which covers the code
  units below 256 (Latin-1); \<open>length\<close> is then the \<open>.length\<close> of the source.
\<close>

definition lower_char :: "char \<Rightarrow> char" where
  "lower_char c =
     (let n = (of_char c :: nat)
      in if (65 \<le> n \<and> n \<le> 90) \<or> (192 \<le> n \<and> n \<le> 222 \<and> n \<noteq> 215)
         then char_of (n + 32) else c)"

definition upper_char :: "char \<Rightarrow> char" where
  "upper_char c =
     (let n = (of_char c :: nat)
      in if 97 \<le> n \<and> n \<le> 122 then char_of (n - 32) else c)"

text \<open>\<open>String.prototype.toLowerCase\<close>: letter by letter on the modelled range.\<close>

definition toLowerCase :: "string \<Rightarrow> string" where
  "toLowerCase s = map lower_char s"

text \<open>
  \<open>String.prototype.toUpperCase\<close>; the source applies it to system aliases only, and the
  model maps the ASCII letters.
\<close>

definition toUpperCase :: "string \<Rightarrow> string" where
  "toUpperCase s = map upper_char s"

text \<open>\<open>s.startsWith(t)\<close> and \<open>s.includes(t)\<close>.\<close>

definition startsWith :: "string \<Rightarrow> string \<Rightarrow> bool" where
  "startsWith s t = prefix t s"

fun str_includes :: "string \<Rightarrow> string \<Rightarrow> bool" where
  "str_includes [] t = (t = [])"
| "str_includes (c # s) t = (prefix t (c # s) \<or> str_includes s t)"

text \<open>White space of \<open>String.prototype.trim\<close> on the modelled range.\<close>

definition is_space :: "char \<Rightarrow> bool" where
  "is_space c =
     (let n = (of_char c :: nat) in (9 \<le> n \<and> n \<le> 13) \<or> n = 32 \<or> n = 160)"

definition trim :: "string \<Rightarrow> string" where
  "trim s = rev (dropWhile is_space (rev (dropWhile is_space s)))"

text \<open>\<open>s.split(',')\<close>: the pieces between the commas, at least one piece.\<close>

fun split_comma :: "string \<Rightarrow> string list" where
  "split_comma [] = [[]]"
| "split_comma (c # s) =
     (if c = CHR '','' then [] # split_comma s
      else (case split_comma s of
              [] \<Rightarrow> [[c]]
            | p # ps \<Rightarrow> (c # p) # ps))"

text \<open>Truthiness of a value that is \<open>null\<close>, \<open>undefined\<close> or a string.\<close>

fun truthy :: "string option \<Rightarrow> bool" where
  "truthy None = False"
| "truthy (Some s) = (s \<noteq> [])"

section \<open>Data model of the stores\<close>

record designation =
  d_language :: string
  d_value :: string

text \<open>
  A concept as a query delivers it: \<open>c_designations\<close> is \<open>None\<close> when the relation was
  not included (\<open>undefined\<close> in the source), \<open>c_display\<close> and \<open>c_definition\<close> are
  \<open>None\<close> when the column is \<open>null\<close>.
\<close>

record concept =
  c_code :: string
  c_display :: "string option"
  c_definition :: "string option"
  c_designations :: "designation list option"

section \<open>Relevance score\<close>

text \<open>The loop over \<open>concept.designations\<close>, the running score passed along.\<close>

fun designation_loop :: "string \<Rightarrow> int \<Rightarrow> designation list \<Rightarrow> int" where
  "designation_loop term score [] = score"
| "designation_loop term score (d # ds) =
     (let val = toLowerCase (d_value d)
      in designation_loop term
           (if val = term then score + 60
            else if str_includes val term then score + 30
            else score) ds)"

definition calculateRelevanceScore :: "concept \<Rightarrow> string \<Rightarrow> int" where
  "calculateRelevanceScore concept searchTerm =
     (let term = toLowerCase searchTerm;
          score = 0;
          score = (if toLowerCase (c_code concept) = term then score + 100
                   else if str_includes (toLowerCase (c_code concept)) term then score + 50
                   else score);
          score = (if truthy (c_display concept)
                   then (let display = toLowerCase (the (c_display concept))
                         in if display = term then score + 90
                            else if startsWith display term then score + 70
                            else if str_includes display term then score + 40
                            else score)
                   else score);
          score = (if truthy (c_definition concept)
                   then (let definition = toLowerCase (the (c_definition concept))
                         in if str_includes definition term then score + 20 else score)
                   else score);
          score = (case c_designations concept of
                     None \<Rightarrow> score
                   | Some ds \<Rightarrow> designation_loop term score ds)
      in score)"

section \<open>Mapping Store and Concept Store\<close>

record mapping_target =
  t_code :: string
  t_display :: "string option"
  t_equivalence :: string
  t_comment :: "string option"

record mapping_element =
  e_code :: string
  e_display :: "string option"
  e_targets :: "mapping_target list"

record mapping_group =
  g_elements :: "mapping_element list"

record conceptMap =
  sourceUri :: string
  targetUri :: string
  groups :: "mapping_group list"

text \<open>
  The rows of \<open>cs_concepts\<close> stand in the order of the autocomplete query's
  \<open>orderBy\<close> (display, then code, ascending); the collation is the database's.
\<close>

record codeSystem =
  cs_url :: string
  cs_name :: string
  cs_concepts :: "concept list"

record store =
  codeSystem_table :: "codeSystem list"
  conceptMap_table :: "conceptMap list"

definition designations_of :: "concept \<Rightarrow> designation list" where
  "designations_of C = (case c_designations C of None \<Rightarrow> [] | Some ds \<Rightarrow> ds)"

text \<open>
  \<open>prisma.codeSystemConcept.findFirst\<close> with \<open>where: {code, codeSystem: {url}}\<close> and
  \<open>include: {codeSystem: true, ...}\<close>: the first concept of that code in a code system of
  that url, with its code system.
\<close>

definition findFirst_concept :: "store \<Rightarrow> string \<Rightarrow> string \<Rightarrow> (codeSystem \<times> concept) option" where
  "findFirst_concept st code system =
     List.find (\<lambda>(cs, c). c_code c = code \<and> cs_url cs = system)
       (concat (map (\<lambda>cs. map (\<lambda>c. (cs, c)) (cs_concepts cs)) (codeSystem_table st)))"

section \<open>Translation Resolver\<close>

record mapping =
  m_targetSystem :: string
  m_targetCode :: string
  m_targetDisplay :: "string option"
  m_equivalence :: string
  m_comment :: "string option"

record reverse_mapping =
  r_sourceSystem :: string
  r_sourceCode :: string
  r_sourceDisplay :: "string option"
  r_equivalence :: string

text \<open>
  \<open>prisma.conceptMap.findMany\<close> of \<open>findMappingsForConcept\<close>: the concept maps of that
  source (and of that target when \<open>targetSystem\<close> is truthy), each group keeping the
  elements of that code only.
\<close>

definition findMany_forward :: "store \<Rightarrow> string \<Rightarrow> string \<Rightarrow> string option \<Rightarrow> conceptMap list" where
  "findMany_forward st code system targetSystem =
     map (\<lambda>cm. cm\<lparr>groups :=
                 map (\<lambda>g. g\<lparr>g_elements := filter (\<lambda>e. e_code e = code) (g_elements g)\<rparr>)
                   (groups cm)\<rparr>)
       (filter (\<lambda>cm. sourceUri cm = system
                  \<and> (if truthy targetSystem then targetUri cm = the targetSystem else True))
          (conceptMap_table st))"

definition findMappingsForConcept :: "store \<Rightarrow> string \<Rightarrow> string \<Rightarrow> string option \<Rightarrow> mapping list" where
  "findMappingsForConcept st code system targetSystem =
     (let conceptMaps = findMany_forward st code system targetSystem
      in foldl (\<lambda>mappings conceptMap.
           foldl (\<lambda>mappings group.
             foldl (\<lambda>mappings element.
               foldl (\<lambda>mappings target.
                 mappings @ [\<lparr>m_targetSystem = targetUri conceptMap,
                              m_targetCode = t_code target,
                              m_targetDisplay = t_display target,
                              m_equivalence = t_equivalence target,
                              m_comment = t_comment target\<rparr>])
                 mappings (e_targets element))
               mappings (g_elements group))
             mappings (groups conceptMap))
           [] conceptMaps)"

text \<open>
  \<open>prisma.conceptMap.findMany\<close> of \<open>findReverseMappingsForConcept\<close>: the concept maps of
  that target, every element kept, each with its targets of that code only.
\<close>

definition findMany_reverse :: "store \<Rightarrow> string \<Rightarrow> string \<Rightarrow> conceptMap list" where
  "findMany_reverse st code system =
     map (\<lambda>cm. cm\<lparr>groups :=
                 map (\<lambda>g. g\<lparr>g_elements :=
                        map (\<lambda>e. e\<lparr>e_targets := filter (\<lambda>t. t_code t = code) (e_targets e)\<rparr>)
                          (g_elements g)\<rparr>)
                   (groups cm)\<rparr>)
       (filter (\<lambda>cm. targetUri cm = system) (conceptMap_table st))"

definition findReverseMappingsForConcept :: "store \<Rightarrow> string \<Rightarrow> string \<Rightarrow> reverse_mapping list" where
  "findReverseMappingsForConcept st code system =
     (let conceptMaps = findMany_reverse st code system
      in foldl (\<lambda>mappings conceptMap.
           foldl (\<lambda>mappings group.
             foldl (\<lambda>mappings element.
               if length (e_targets element) > 0
               then mappings @ [\<lparr>r_sourceSystem = sourceUri conceptMap,
                                 r_sourceCode = e_code element,
                                 r_sourceDisplay = e_display element,
                                 r_equivalence = t_equivalence (e_targets element ! 0)\<rparr>]
               else mappings)
               mappings (g_elements group))
             mappings (groups conceptMap))
           [] conceptMaps)"

section \<open>Errors and responses\<close>

text \<open>
  \<open>ValidationError\<close> is the handlers' own error (the spec's InvalidArgument), with its
  message. \<open>PrismaValidationError\<close> is the client library rejecting an argument of the
  wrong type before it queries.
\<close>

datatype error = ValidationError string | PrismaValidationError

text \<open>
  A FHIR Parameters entry: its name and its value, or its parts. A coding is its system,
  code and display; the autocomplete response adds a version to it. A score is a
  \<open>valueDecimal\<close> that is always a whole number.
\<close>

datatype part =
    ValueBoolean string bool
  | ValueInteger string int
  | ValueDecimal string int
  | ValueString string "string option"
  | ValueCode string string
  | ValueUri string string
  | ValueCoding string string string "string option"
  | ValueCodingVersion string string string "string option" string
  | Part string "part list"

fun part_name :: "part \<Rightarrow> string" where
  "part_name (ValueBoolean n _) = n"
| "part_name (ValueInteger n _) = n"
| "part_name (ValueDecimal n _) = n"
| "part_name (ValueString n _) = n"
| "part_name (ValueCode n _) = n"
| "part_name (ValueUri n _) = n"
| "part_name (ValueCoding n _ _ _) = n"
| "part_name (ValueCodingVersion n _ _ _ _) = n"
| "part_name (Part n _) = n"

definition quoted :: "string \<Rightarrow> string" where
  "quoted s = [CHR 0x27] @ s @ [CHR 0x27]"

section \<open>Translate\<close>

text \<open>A value read from the request body: \<open>undefined\<close>, a boolean or a string.\<close>

datatype jsvalue = Undefined | JBool bool | JString string

fun js_truthy :: "jsvalue \<Rightarrow> bool" where
  "js_truthy Undefined = False"
| "js_truthy (JBool b) = b"
| "js_truthy (JString s) = (s \<noteq> [])"

record param =
  p_name :: string
  valueCode :: "string option"
  valueUri :: "string option"
  valueBoolean :: "bool option"

text \<open>\<open>param.valueCode || param.valueUri || param.valueBoolean\<close>.\<close>

definition param_value :: "param \<Rightarrow> jsvalue" where
  "param_value p =
     (if truthy (valueCode p) then JString (the (valueCode p))
      else if truthy (valueUri p) then JString (the (valueUri p))
      else (case valueBoolean p of None \<Rightarrow> Undefined | Some b \<Rightarrow> JBool b))"

text \<open>The \<open>reduce\<close> over \<open>req.body.parameter\<close>: an object from names to values.\<close>

definition parse_parameters :: "param list option \<Rightarrow> string \<Rightarrow> jsvalue" where
  "parse_parameters parameter =
     (case parameter of
        None \<Rightarrow> (\<lambda>_. Undefined)
      | Some ps \<Rightarrow> foldl (\<lambda>acc p. acc(p_name p := param_value p)) (\<lambda>_. Undefined) ps)"

definition not_found_message :: "string \<Rightarrow> string \<Rightarrow> string" where
  "not_found_message code system =
     ''Code '' @ quoted code @ '' not found in system '' @ quoted system"

definition no_mappings_message :: "string \<Rightarrow> string \<Rightarrow> string option \<Rightarrow> string" where
  "no_mappings_message code system target =
     ''No mappings found for code '' @ quoted code @ '' from '' @ quoted system @ '' to ''
       @ quoted (if truthy target then the target else ''any target system'')"

definition match_part :: "mapping \<Rightarrow> part" where
  "match_part m =
     Part ''match''
       ([ValueCode ''equivalence'' (m_equivalence m),
         ValueCoding ''concept'' (m_targetSystem m) (m_targetCode m) (m_targetDisplay m)]
        @ (if truthy (m_comment m) then [ValueString ''comment'' (m_comment m)] else []))"

definition translate :: "store \<Rightarrow> param list option \<Rightarrow> error + part list" where
  "translate st parameter =
     (let acc = parse_parameters parameter;
          code = acc ''code'';
          system = acc ''system'';
          target = acc ''target'';
          reverse = (case acc ''reverse'' of Undefined \<Rightarrow> JBool False | v \<Rightarrow> v)
      in if \<not> js_truthy code \<or> \<not> js_truthy system
         then Inl (ValidationError ''code and system parameters are required'')
         else (case (code, system) of
                 (JString code, JString system) \<Rightarrow>
                   (case findFirst_concept st code system of
                      None \<Rightarrow>
                        Inr [ValueBoolean ''result'' False,
                             ValueString ''message'' (Some (not_found_message code system))]
                    | Some (codeSystem, sourceConcept) \<Rightarrow>
                        (case target of
                           JBool True \<Rightarrow> Inl PrismaValidationError
                         | _ \<Rightarrow>
                            (let target = (case target of JString t \<Rightarrow> Some t | _ \<Rightarrow> None);
                                 mappings = findMappingsForConcept st code system target
                             in if length mappings = 0
                                then Inr [ValueBoolean ''result'' False,
                                          ValueString ''message''
                                            (Some (no_mappings_message code system target))]
                                else Inr ([ValueBoolean ''result'' True,
                                           ValueCoding ''source'' (cs_url codeSystem)
                                             (c_code sourceConcept) (c_display sourceConcept)]
                                          @ map match_part mappings))))
               | _ \<Rightarrow> Inl PrismaValidationError))"

section \<open>Dual-code lookup\<close>

text \<open>
  The query of the request: \<open>includeDetails\<close> and \<open>includeHierarchy\<close> hold the truthiness
  of the parameters (\<open>true\<close> and \<open>false\<close> when absent). \<open>includeHierarchy\<close> only widens
  what the query includes; no part of the response reads it.
\<close>

record dual_request =
  namasteCode :: "string option"
  icd11Code :: "string option"
  includeDetails :: bool
  includeHierarchy :: bool

text \<open>\<open>xs.join(sep)\<close>.\<close>

fun join :: "string \<Rightarrow> string list \<Rightarrow> string" where
  "join sep [] = []"
| "join sep [x] = x"
| "join sep (x # y # ys) = x @ sep @ join sep (y # ys)"

definition designations_string :: "designation list \<Rightarrow> string" where
  "designations_string ds = join ''; '' (map (\<lambda>d. d_language d @ '': '' @ d_value d) ds)"

definition mapping_part :: "mapping \<Rightarrow> part" where
  "mapping_part m =
     Part ''mapping''
       [ValueCoding ''targetCode'' (m_targetSystem m) (m_targetCode m) (m_targetDisplay m),
        ValueCode ''equivalence'' (m_equivalence m)]"

definition reverseMapping_part :: "reverse_mapping \<Rightarrow> part" where
  "reverseMapping_part m =
     Part ''reverseMapping''
       [ValueCoding ''sourceCode'' (r_sourceSystem m) (r_sourceCode m) (r_sourceDisplay m),
        ValueCode ''equivalence'' (r_equivalence m)]"

text \<open>What the block \<open>if (namasteCode)\<close> pushes to \<open>result.parameter\<close>.\<close>

definition namaste_lookup :: "store \<Rightarrow> dual_request \<Rightarrow> part list" where
  "namaste_lookup st rq =
     (case findFirst_concept st (the (namasteCode rq))
             ''https://ayush.gov.in/fhir/CodeSystem/namaste'' of
        None \<Rightarrow> []
      | Some (codeSystem, namasteConcept) \<Rightarrow>
          [Part ''namaste''
             ([ValueCoding ''code'' (cs_url codeSystem) (c_code namasteConcept)
                 (c_display namasteConcept)]
              @ (if includeDetails rq \<and> truthy (c_definition namasteConcept)
                 then [ValueString ''definition'' (c_definition namasteConcept)] else [])
              @ (if includeDetails rq \<and> length (designations_of namasteConcept) > 0
                 then [ValueString ''designations''
                         (Some (designations_string (designations_of namasteConcept)))]
                 else []))]
          @ (let mappings =
                   findMappingsForConcept st (the (namasteCode rq)) (cs_url codeSystem) None
             in if length mappings > 0
                then [Part ''mappedIcd11Codes'' (map mapping_part mappings)]
                else []))"

definition icd11Systems :: "string list" where
  "icd11Systems =
     [''http://id.who.int/icd/release/11/mms'', ''https://icd.who.int/browse11/l-m/en'']"

text \<open>
  What the block \<open>if (icd11Code)\<close> pushes: the loop over \<open>icd11Systems\<close>, left by
  \<open>break\<close> at the first system that has the code.
\<close>

fun icd11_lookup :: "store \<Rightarrow> dual_request \<Rightarrow> string list \<Rightarrow> part list" where
  "icd11_lookup st rq [] = []"
| "icd11_lookup st rq (systemUrl # rest) =
     (case findFirst_concept st (the (icd11Code rq)) systemUrl of
        None \<Rightarrow> icd11_lookup st rq rest
      | Some (codeSystem, icd11Concept) \<Rightarrow>
          [Part ''icd11''
             ([ValueCoding ''code'' (cs_url codeSystem) (c_code icd11Concept)
                 (c_display icd11Concept)]
              @ (if includeDetails rq \<and> truthy (c_definition icd11Concept)
                 then [ValueString ''definition'' (c_definition icd11Concept)] else []))]
          @ (let reverseMappings =
                   findReverseMappingsForConcept st (the (icd11Code rq)) systemUrl
             in if length reverseMappings > 0
                then [Part ''mappedNamasteCodes'' (map reverseMapping_part reverseMappings)]
                else []))"

definition dual_code_lookup :: "store \<Rightarrow> dual_request \<Rightarrow> error + part list" where
  "dual_code_lookup st rq =
     (if \<not> truthy (namasteCode rq) \<and> \<not> truthy (icd11Code rq)
      then Inl (ValidationError ''Either namasteCode or icd11Code parameter is required'')
      else (let parameter = [];
                parameter = parameter
                  @ (if truthy (namasteCode rq) then namaste_lookup st rq else []);
                parameter = parameter
                  @ (if truthy (icd11Code rq) then icd11_lookup st rq icd11Systems else [])
            in Inr (ValueBoolean ''result'' (length parameter > 1) # parameter)))"

section \<open>Autocomplete\<close>

text \<open>
  The query of the request. \<open>q_limit\<close> is the value of \<open>parseInt(limit)\<close>, \<open>None\<close> for
  \<open>NaN\<close> (20 when the parameter is absent). \<open>q_includeDesignations\<close> is the parameter as
  it was sent, \<open>None\<close> when it is absent: the handler reads its truthiness and also hands
  the value itself to the query. \<open>q_includeMappings\<close> holds the truthiness of its
  parameter (\<open>true\<close> when absent), which is all the handler reads of it. \<open>q_systems\<close> is
  \<open>'namaste,icd11-tm2,unani'\<close> when the parameter is absent.
\<close>

record autocomplete_request =
  q_search :: "string option"
  q_system :: "string option"
  q_limit :: "int option"
  q_includeDesignations :: "string option"
  q_includeMappings :: bool
  q_systems :: string

record result =
  res_system :: string
  res_systemName :: string
  res_code :: string
  res_display :: "string option"
  res_definition :: "string option"
  res_score :: int
  res_terminology :: string
  res_designations :: "designation list option"
  res_mappings :: "mapping list option"

text \<open>
  \<open>systemUrls[systemKey]\<close>: one of the four urls, nothing, or for the two lower-case
  names every object inherits a value that is no string.
\<close>

datatype url_lookup = Own string | Inherited | Missing

definition systemUrls :: "string \<Rightarrow> url_lookup" where
  "systemUrls systemKey =
     (if systemKey = ''namaste'' then Own ''https://ayush.gov.in/fhir/CodeSystem/namaste''
      else if systemKey = ''unani'' then Own ''https://ayush.gov.in/fhir/CodeSystem/unani''
      else if systemKey = ''icd11-tm2'' then Own ''http://id.who.int/icd/release/11/mms''
      else if systemKey = ''icd11'' then Own ''https://icd.who.int/browse11/l-m/en''
      else if systemKey = ''constructor'' \<or> systemKey = ''__proto__'' then Inherited
      else Missing)"

text \<open>
  The value of \<open>includeDesignations\<close> in the handler: \<open>true\<close> by default, else the
  parameter, read for its truthiness.
\<close>

definition includeDesignations :: "autocomplete_request \<Rightarrow> bool" where
  "includeDesignations rq =
     (case q_includeDesignations rq of None \<Rightarrow> True | Some s \<Rightarrow> s \<noteq> [])"

text \<open>
  The filter \<open>{contains: search, mode: 'insensitive'}\<close>: the database matches the value
  against the pattern \<open>%search%\<close>, ignoring case. The search term goes into the pattern
  as it is, so its \<open>%\<close> stands for any run of characters, its \<open>_\<close> for any one
  character, and its backslash takes the next character of the pattern literally.
  \<open>ilike p s\<close> is the match of the value \<open>s\<close> against the pattern \<open>p\<close>; a pattern
  that ends in a lone backslash does not arise, as every pattern here ends in \<open>%\<close>.
\<close>

fun ilike :: "string \<Rightarrow> string \<Rightarrow> bool" where
  "ilike [] s = (s = [])"
| "ilike (p # ps) s =
     (if p = CHR ''%''
      then ilike ps s \<or> (case s of [] \<Rightarrow> False | c # cs \<Rightarrow> ilike (p # ps) cs)
      else if p = CHR ''_''
      then (case s of [] \<Rightarrow> False | c # cs \<Rightarrow> ilike ps cs)
      else if p = CHR 0x5C
      then (case ps of
              [] \<Rightarrow> False
            | q # qs \<Rightarrow>
                (case s of
                   [] \<Rightarrow> False
                 | c # cs \<Rightarrow> lower_char c = lower_char q \<and> ilike qs cs))
      else (case s of
              [] \<Rightarrow> False
            | c # cs \<Rightarrow> lower_char c = lower_char p \<and> ilike ps cs))"

definition contains_insensitive :: "string \<Rightarrow> string \<Rightarrow> bool" where
  "contains_insensitive field search = ilike (''%'' @ search @ ''%'') field"

text \<open>The \<open>where\<close> of the query.\<close>

definition concept_where :: "bool \<Rightarrow> string \<Rightarrow> concept \<Rightarrow> bool" where
  "concept_where flag search c =
     (contains_insensitive (c_code c) search
      \<or> (case c_display c of None \<Rightarrow> False | Some d \<Rightarrow> contains_insensitive d search)
      \<or> (case c_definition c of None \<Rightarrow> False | Some d \<Rightarrow> contains_insensitive d search)
      \<or> (flag
          \<and> list_ex (\<lambda>d. contains_insensitive (d_value d) search) (designations_of c)))"

text \<open>
  \<open>take: n\<close> of the client library: the first \<open>n\<close> rows of the ordering, and for a
  negative \<open>n\<close> the last \<open>-n\<close>.
\<close>

definition prisma_take :: "int \<Rightarrow> 'a list \<Rightarrow> 'a list" where
  "prisma_take n xs =
     (if 0 \<le> n then take (nat n) xs else drop (length xs - nat (- n)) xs)"

text \<open>
  The concepts the nested query delivers for one code system. The query is made with
  \<open>include: {designations: includeDesignations}\<close> where the value is \<open>true\<close> or the empty
  string (any other string is rejected before, see \<open>search_system\<close>), and with either
  the designations are loaded; the flag decides only whether the \<open>where\<close> looks at them.
\<close>

definition find_concepts :: "bool \<Rightarrow> string \<Rightarrow> int \<Rightarrow> codeSystem \<Rightarrow> concept list" where
  "find_concepts flag search n codeSystem =
     map (\<lambda>c. c\<lparr>c_designations := Some (designations_of c)\<rparr>)
       (prisma_take (min n 50)
          (filter (concept_where flag search) (cs_concepts codeSystem)))"

definition make_result ::
  "store \<Rightarrow> autocomplete_request \<Rightarrow> string \<Rightarrow> string \<Rightarrow> codeSystem \<Rightarrow> concept \<Rightarrow> result" where
  "make_result st rq search systemKey codeSystem concept =
     \<lparr>res_system = cs_url codeSystem,
      res_systemName = cs_name codeSystem,
      res_code = c_code concept,
      res_display = c_display concept,
      res_definition = c_definition concept,
      res_score = calculateRelevanceScore concept search,
      res_terminology = toUpperCase systemKey,
      res_designations =
        (if includeDesignations rq \<and> length (designations_of concept) > 0
         then Some (designations_of concept) else None),
      res_mappings =
        (if q_includeMappings rq
         then (let mappings = findMappingsForConcept st (c_code concept) (cs_url codeSystem) None
               in if length mappings > 0 then Some mappings else None)
         else None)\<rparr>"

text \<open>
  One round of the loop over \<open>systemsToSearch\<close>: the results it pushes, or the error
  of the query. The client library rejects, before it queries, a url that is no string,
  an \<open>includeDesignations\<close> that is a non-empty string (the \<open>include\<close> takes a boolean),
  and a limit that is \<open>NaN\<close>.
\<close>

definition search_system ::
  "store \<Rightarrow> autocomplete_request \<Rightarrow> string \<Rightarrow> string \<Rightarrow> error + result list" where
  "search_system st rq search systemKey =
     (case systemUrls systemKey of
        Missing \<Rightarrow> Inr []
      | Inherited \<Rightarrow> if truthy (q_system rq) then Inr [] else Inl PrismaValidationError
      | Own systemUrl \<Rightarrow>
          if truthy (q_system rq) \<and> the (q_system rq) \<noteq> systemUrl then Inr []
          else if truthy (q_includeDesignations rq) then Inl PrismaValidationError
          else (case q_limit rq of
                  None \<Rightarrow> Inl PrismaValidationError
                | Some n \<Rightarrow>
                    (case List.find (\<lambda>cs. cs_url cs = systemUrl) (codeSystem_table st) of
                       None \<Rightarrow> Inr []
                     | Some codeSystem \<Rightarrow>
                         (let concepts =
                                find_concepts (includeDesignations rq) search n codeSystem
                          in if length concepts > 0
                             then Inr (map (make_result st rq search systemKey codeSystem)
                                         concepts)
                             else Inr []))))"

fun search_systems ::
  "store \<Rightarrow> autocomplete_request \<Rightarrow> string \<Rightarrow> result list \<Rightarrow> string list
     \<Rightarrow> error + result list" where
  "search_systems st rq search results [] = Inr results"
| "search_systems st rq search results (systemKey # rest) =
     (case search_system st rq search systemKey of
        Inl e \<Rightarrow> Inl e
      | Inr pushed \<Rightarrow> search_systems st rq search (results @ pushed) rest)"

text \<open>
  \<open>Array.prototype.sort\<close> with a comparator: the sort of the language is stable, and
  an element goes before the ones the comparator does not put it after. The comparator
  of the handler is \<open>(a, b) => b.score - a.score\<close>.
\<close>

fun insert_by :: "('a \<Rightarrow> 'a \<Rightarrow> int) \<Rightarrow> 'a \<Rightarrow> 'a list \<Rightarrow> 'a list" where
  "insert_by cmp x [] = [x]"
| "insert_by cmp x (y # ys) =
     (if cmp x y \<le> 0 then x # y # ys else y # insert_by cmp x ys)"

definition array_sort :: "('a \<Rightarrow> 'a \<Rightarrow> int) \<Rightarrow> 'a list \<Rightarrow> 'a list" where
  "array_sort cmp xs = foldr (insert_by cmp) xs []"

definition sort_by_score :: "result list \<Rightarrow> result list" where
  "sort_by_score results = array_sort (\<lambda>a b. res_score b - res_score a) results"

text \<open>\<open>xs.slice(0, n)\<close>: a negative \<open>n\<close> counts from the end, \<open>NaN\<close> is 0.\<close>

definition slice0 :: "int option \<Rightarrow> 'a list \<Rightarrow> 'a list" where
  "slice0 n xs =
     (case n of
        None \<Rightarrow> []
      | Some n \<Rightarrow> if n < 0 then take (nat (int (length xs) + n)) xs else take (nat n) xs)"

definition systemsToSearch :: "string \<Rightarrow> string list" where
  "systemsToSearch systems = map (\<lambda>s. toLowerCase (trim s)) (split_comma systems)"

text \<open>The handler up to \<open>limitedResults\<close>, the sorted and cut list of results.\<close>

definition autocomplete :: "store \<Rightarrow> autocomplete_request \<Rightarrow> error + result list" where
  "autocomplete st rq =
     (if \<not> truthy (q_search rq) \<or> length (the (q_search rq)) < 2
      then Inl (ValidationError ''search parameter must be at least 2 characters'')
      else (let search = the (q_search rq)
            in case search_systems st rq search [] (systemsToSearch (q_systems rq)) of
                 Inl e \<Rightarrow> Inl e
               | Inr results \<Rightarrow> Inr (slice0 (q_limit rq) (sort_by_score results))))"

text \<open>The response: four leading parameters, then one \<open>match\<close> for each result, in order.\<close>

definition match_mapping_part :: "mapping \<Rightarrow> part" where
  "match_mapping_part m =
     Part ''mapping''
       [ValueUri ''targetSystem'' (m_targetSystem m),
        ValueCode ''targetCode'' (m_targetCode m),
        ValueString ''targetDisplay'' (m_targetDisplay m),
        ValueCode ''equivalence'' (m_equivalence m)]"

definition match_parameter :: "result \<Rightarrow> nat \<Rightarrow> part" where
  "match_parameter r index =
     Part ''match''
       ([ValueInteger ''index'' (int index),
         ValueDecimal ''score'' (res_score r),
         ValueCodingVersion ''code'' (res_system r) (res_code r) (res_display r) ''1.0'',
         ValueString ''terminology'' (Some (res_terminology r))]
        @ (if truthy (res_definition r)
           then [ValueString ''definition'' (res_definition r)] else [])
        @ (case res_designations r of
             None \<Rightarrow> []
           | Some ds \<Rightarrow> [ValueString ''designations'' (Some (designations_string ds))])
        @ (case res_mappings r of
             None \<Rightarrow> []
           | Some ms \<Rightarrow> [Part ''mappings'' (map match_mapping_part ms)]))"

definition autocomplete_response :: "string \<Rightarrow> string list \<Rightarrow> result list \<Rightarrow> part list" where
  "autocomplete_response search keys limitedResults =
     [ValueBoolean ''result'' (length limitedResults > 0),
      ValueInteger ''matches'' (int (length limitedResults)),
      ValueString ''searchTerm'' (Some search),
      ValueString ''systemsSearched'' (Some (join '', '' keys))]
     @ map2 match_parameter limitedResults [0..<length limitedResults]"

definition autocomplete_handler :: "store \<Rightarrow> autocomplete_request \<Rightarrow> error + part list" where
  "autocomplete_handler st rq =
     (case autocomplete st rq of
        Inl e \<Rightarrow> Inl e
      | Inr limitedResults \<Rightarrow>
          Inr (autocomplete_response (the (q_search rq)) (systemsToSearch (q_systems rq))
                 limitedResults))"

section \<open>The properties, as stated\<close>

text \<open>Comparisons of the specification: equality, prefix and containment, ignoring case.\<close>

definition ci_equal :: "string \<Rightarrow> string \<Rightarrow> bool" where
  "ci_equal a t = (toLowerCase a = toLowerCase t)"

definition ci_starts :: "string \<Rightarrow> string \<Rightarrow> bool" where
  "ci_starts a t = prefix (toLowerCase t) (toLowerCase a)"

definition ci_contains :: "string \<Rightarrow> string \<Rightarrow> bool" where
  "ci_contains a t = sublist (toLowerCase t) (toLowerCase a)"

definition opt_contains :: "string option \<Rightarrow> string \<Rightarrow> bool" where
  "opt_contains f t = (case f of None \<Rightarrow> False | Some s \<Rightarrow> ci_contains s t)"

definition code_points :: "string \<Rightarrow> string \<Rightarrow> int" where
  "code_points c t = (if ci_equal c t then 100 else if ci_contains c t then 50 else 0)"

definition display_points :: "string \<Rightarrow> string \<Rightarrow> int" where
  "display_points d t =
     (if ci_equal d t then 90 else if ci_starts d t then 70
      else if ci_contains d t then 40 else 0)"

definition definition_points :: "string \<Rightarrow> string \<Rightarrow> int" where
  "definition_points d t = (if ci_contains d t then 20 else 0)"

definition designation_points :: "string \<Rightarrow> designation \<Rightarrow> int" where
  "designation_points t d =
     (if ci_equal (d_value d) t then 60 else if ci_contains (d_value d) t then 30 else 0)"

text \<open>The score as the scoring rules word it.\<close>

definition claimed_score :: "concept \<Rightarrow> string \<Rightarrow> int" where
  "claimed_score C T =
     code_points (c_code C) T
     + (case c_display C of None \<Rightarrow> 0 | Some d \<Rightarrow> display_points d T)
     + (case c_definition C of None \<Rightarrow> 0 | Some d \<Rightarrow> definition_points d T)
     + sum_list (map (designation_points T) (designations_of C))"

text \<open>
  The same sum with the truthiness guards of the code: an empty display or definition
  counts as an absent one. The two sums differ for the empty term only.
\<close>

definition guarded_score :: "concept \<Rightarrow> string \<Rightarrow> int" where
  "guarded_score C T =
     code_points (c_code C) T
     + (case c_display C of None \<Rightarrow> 0
        | Some d \<Rightarrow> if d = [] then 0 else display_points d T)
     + (case c_definition C of None \<Rightarrow> 0
        | Some d \<Rightarrow> if d = [] then 0 else definition_points d T)
     + sum_list (map (designation_points T) (designations_of C))"

text \<open>A forward lookup restricts the target system when one is given.\<close>

definition target_restriction :: "string option \<Rightarrow> conceptMap \<Rightarrow> bool" where
  "target_restriction targetSystem cm =
     (case targetSystem of None \<Rightarrow> True | Some t \<Rightarrow> t = [] \<or> targetUri cm = t)"

text \<open>
  The reverse edge of an element: none when no target has the code, else one, with the
  equivalence of the first target that has it.
\<close>

definition reverse_edge :: "string \<Rightarrow> conceptMap \<Rightarrow> mapping_element \<Rightarrow> reverse_mapping list" where
  "reverse_edge code cm e =
     (case List.find (\<lambda>t. t_code t = code) (e_targets e) of
        None \<Rightarrow> []
      | Some t \<Rightarrow> [\<lparr>r_sourceSystem = sourceUri cm, r_sourceCode = e_code e,
                    r_sourceDisplay = e_display e, r_equivalence = t_equivalence t\<rparr>])"

text \<open>The \<open>found\<close> flag and the matches of a Translate response.\<close>

fun response_found :: "error + part list \<Rightarrow> bool option" where
  "response_found (Inr (ValueBoolean n b # _)) = (if n = ''result'' then Some b else None)"
| "response_found _ = None"

fun response_matches :: "error + part list \<Rightarrow> part list" where
  "response_matches (Inr ps) = filter (\<lambda>p. part_name p = ''match'') ps"
| "response_matches (Inl _) = []"

text \<open>The target system a Translate request names, if any.\<close>

fun target_of :: "jsvalue \<Rightarrow> string option" where
  "target_of (JString t) = Some t"
| "target_of _ = None"

text \<open>The entries of a dual-code response that report one of the two codes.\<close>

definition namaste_slot :: "part list \<Rightarrow> part list" where
  "namaste_slot ps =
     filter (\<lambda>p. part_name p = ''namaste'' \<or> part_name p = ''mappedIcd11Codes'') ps"

definition icd11_slot :: "part list \<Rightarrow> part list" where
  "icd11_slot ps =
     filter (\<lambda>p. part_name p = ''icd11'' \<or> part_name p = ''mappedNamasteCodes'') ps"

fun is_invalid_argument :: "error + 'a \<Rightarrow> bool" where
  "is_invalid_argument (Inl (ValidationError _)) = True"
| "is_invalid_argument _ = False"


section \<open>Example stores and requests\<close>

definition namaste_url :: string where
  "namaste_url = ''https://ayush.gov.in/fhir/CodeSystem/namaste''"

definition unani_url :: string where
  "unani_url = ''https://ayush.gov.in/fhir/CodeSystem/unani''"

definition icd11_url :: string where
  "icd11_url = ''http://id.who.int/icd/release/11/mms''"

definition fever_target :: "string \<Rightarrow> mapping_target" where
  "fever_target eq =
     \<lparr>t_code = ''MD11.0'', t_display = Some ''Fever, unspecified'',
      t_equivalence = eq, t_comment = None\<rparr>"

definition fever_map :: conceptMap where
  "fever_map =
     \<lparr>sourceUri = namaste_url, targetUri = icd11_url,
      groups = [\<lparr>g_elements =
                  [\<lparr>e_code = ''N001'', e_display = Some ''Fever (Jwara)'',
                    e_targets = [fever_target ''wider'', fever_target ''equivalent'']\<rparr>]\<rparr>]\<rparr>"

definition example_store :: store where
  "example_store =
     \<lparr>codeSystem_table =
        [\<lparr>cs_url = namaste_url, cs_name = ''NAMASTE'',
          cs_concepts =
            [\<lparr>c_code = ''N001'', c_display = Some ''Fever (Jwara)'',
              c_definition = Some ''Raised body temperature'',
              c_designations = Some [\<lparr>d_language = ''hi'', d_value = ''Jwara''\<rparr>]\<rparr>,
             \<lparr>c_code = ''N002'', c_display = Some ''Hay fever'',
              c_definition = None, c_designations = Some []\<rparr>]\<rparr>,
         \<lparr>cs_url = icd11_url, cs_name = ''ICD-11'',
          cs_concepts =
            [\<lparr>c_code = ''MD11.0'', c_display = Some ''Fever, unspecified'',
              c_definition = None, c_designations = Some []\<rparr>]\<rparr>],
      conceptMap_table = [fever_map]\<rparr>"

definition code_param :: "string \<Rightarrow> param" where
  "code_param c =
     \<lparr>p_name = ''code'', valueCode = Some c, valueUri = None, valueBoolean = None\<rparr>"

definition system_param :: "string \<Rightarrow> param" where
  "system_param u =
     \<lparr>p_name = ''system'', valueCode = None, valueUri = Some u, valueBoolean = None\<rparr>"

definition reverse_param :: "bool \<Rightarrow> param" where
  "reverse_param b =
     \<lparr>p_name = ''reverse'', valueCode = None, valueUri = None, valueBoolean = Some b\<rparr>"

definition dual_request_of :: "string option \<Rightarrow> string option \<Rightarrow> dual_request" where
  "dual_request_of a b =
     \<lparr>namasteCode = a, icd11Code = b, includeDetails = True, includeHierarchy = False\<rparr>"

definition fever_request :: "string \<Rightarrow> int \<Rightarrow> autocomplete_request" where
  "fever_request s n =
     \<lparr>q_search = Some s, q_system = None, q_limit = Some n,
      q_includeDesignations = None, q_includeMappings = True,
      q_systems = ''namaste,icd11-tm2,unani''\<rparr>"

text \<open>A store of two code systems with 26 concepts each, every code starting with \<open>fe\<close>.\<close>

definition many_concepts :: "concept list" where
  "many_concepts =
     map (\<lambda>i. \<lparr>c_code = ''fe'' @ replicate i (CHR ''a''), c_display = Some ''fever'',
                c_definition = None, c_designations = Some []\<rparr>) [0..<26]"

definition many_system :: "string \<Rightarrow> string \<Rightarrow> codeSystem" where
  "many_system u n = \<lparr>cs_url = u, cs_name = n, cs_concepts = many_concepts\<rparr>"

definition large_store :: store where
  "large_store =
     \<lparr>codeSystem_table =
        [many_system namaste_url ''NAMASTE'', many_system unani_url ''UNANI''],
      conceptMap_table = []\<rparr>"

section \<open>Strings and scores\<close>

lemma str_includes_sublist: "str_includes s t = sublist t s"
  by (induction s) (simp_all add: sublist_Cons_right)

lemma toLowerCase_Nil_iff: "toLowerCase t = [] \<longleftrightarrow> t = []"
  by (simp add: toLowerCase_def)

lemma designation_loop_sum:
  "designation_loop (toLowerCase T) score ds
     = score + sum_list (map (designation_points T) ds)"
  by (induction ds arbitrary: score)
     (simp_all add: designation_points_def ci_equal_def ci_contains_def
        str_includes_sublist Let_def)

lemma score_guarded: "calculateRelevanceScore C T = guarded_score C T"
  by (cases "c_display C"; cases "c_definition C"; cases "c_designations C")
     (simp_all add: calculateRelevanceScore_def guarded_score_def Let_def
        designation_loop_sum code_points_def display_points_def definition_points_def
        designations_of_def ci_equal_def ci_contains_def ci_starts_def startsWith_def
        str_includes_sublist)

lemma guarded_claimed: "T \<noteq> [] \<Longrightarrow> guarded_score C T = claimed_score C T"
  by (cases "c_display C"; cases "c_definition C")
     (auto simp: guarded_score_def claimed_score_def display_points_def
        definition_points_def ci_equal_def ci_starts_def ci_contains_def
        toLowerCase_Nil_iff toLowerCase_def)

lemma code_points_nonneg: "0 \<le> code_points c t"
  by (simp add: code_points_def)

lemma display_points_nonneg: "0 \<le> display_points c t"
  by (simp add: display_points_def)

lemma definition_points_nonneg: "0 \<le> definition_points c t"
  by (simp add: definition_points_def)

lemma designation_points_nonneg: "0 \<le> designation_points t d"
  by (simp add: designation_points_def)

lemma designations_sum_nonneg: "0 \<le> sum_list (map (designation_points t) ds)"
  by (induction ds) (simp_all add: designation_points_nonneg)

lemma ci_equal_contains: "ci_equal a t \<Longrightarrow> ci_contains a t"
  by (simp add: ci_equal_def ci_contains_def)

lemma ci_starts_contains: "ci_starts a t \<Longrightarrow> ci_contains a t"
  by (simp add: ci_starts_def ci_contains_def prefix_imp_sublist)

lemma code_points_zero: "code_points c t = 0 \<longleftrightarrow> \<not> ci_contains c t"
  by (auto simp: code_points_def dest: ci_equal_contains)

lemma display_points_zero: "display_points c t = 0 \<longleftrightarrow> \<not> ci_contains c t"
  by (auto simp: display_points_def dest: ci_equal_contains ci_starts_contains)

lemma definition_points_zero: "definition_points c t = 0 \<longleftrightarrow> \<not> ci_contains c t"
  by (auto simp: definition_points_def)

lemma designation_points_zero:
  "designation_points t d = 0 \<longleftrightarrow> \<not> ci_contains (d_value d) t"
  by (auto simp: designation_points_def dest: ci_equal_contains)

lemma designations_sum_zero:
  "sum_list (map (designation_points t) ds) = 0
     \<longleftrightarrow> list_all (\<lambda>d. \<not> ci_contains (d_value d) t) ds"
proof (induction ds)
  case Nil
  show ?case by simp
next
  case (Cons d ds)
  have "designation_points t d + sum_list (map (designation_points t) ds) = 0
        \<longleftrightarrow> designation_points t d = 0 \<and> sum_list (map (designation_points t) ds) = 0"
    using designation_points_nonneg [of t d] designations_sum_nonneg [of t ds] by linarith
  with Cons show ?case by (simp add: designation_points_zero)
qed

lemma ci_contains_empty_field: "ci_contains [] t \<longleftrightarrow> t = []"
  by (simp add: ci_contains_def toLowerCase_def)

lemma ci_contains_empty_term: "ci_contains a []"
  by (simp add: ci_contains_def toLowerCase_def)

lemma guarded_score_nonneg: "0 \<le> guarded_score C T"
  unfolding guarded_score_def
  using code_points_nonneg [of "c_code C" T] designations_sum_nonneg [of T "designations_of C"]
  by (auto split: option.splits simp: display_points_nonneg definition_points_nonneg
      intro!: add_nonneg_nonneg)

lemma guarded_score_zero:
  "guarded_score C T = 0 \<longleftrightarrow>
     \<not> ci_contains (c_code C) T \<and> \<not> opt_contains (c_display C) T
     \<and> \<not> opt_contains (c_definition C) T
     \<and> list_all (\<lambda>d. \<not> ci_contains (d_value d) T) (designations_of C)"
proof -
  let ?a = "code_points (c_code C) T"
  let ?b = "case c_display C of None \<Rightarrow> 0
            | Some d \<Rightarrow> if d = [] then 0 else display_points d T"
  let ?c = "case c_definition C of None \<Rightarrow> 0
            | Some d \<Rightarrow> if d = [] then 0 else definition_points d T"
  let ?d = "sum_list (map (designation_points T) (designations_of C))"
  have a: "0 \<le> ?a" by (rule code_points_nonneg)
  have b: "0 \<le> ?b" by (simp add: display_points_nonneg split: option.splits)
  have c: "0 \<le> ?c" by (simp add: definition_points_nonneg split: option.splits)
  have d: "0 \<le> ?d" by (rule designations_sum_nonneg)
  have "guarded_score C T = 0 \<longleftrightarrow> ?a = 0 \<and> ?b = 0 \<and> ?c = 0 \<and> ?d = 0"
    unfolding guarded_score_def using a b c d by linarith
  moreover have "?a = 0 \<and> ?b = 0 \<longleftrightarrow> ?a = 0 \<and> \<not> opt_contains (c_display C) T"
    by (auto simp: opt_contains_def code_points_zero display_points_zero
        ci_contains_empty_field ci_contains_empty_term split: option.splits)
  moreover have "?a = 0 \<and> ?c = 0 \<longleftrightarrow> ?a = 0 \<and> \<not> opt_contains (c_definition C) T"
    by (auto simp: opt_contains_def code_points_zero definition_points_zero
        ci_contains_empty_field ci_contains_empty_term split: option.splits)
  ultimately show ?thesis
    by (auto simp: code_points_zero designations_sum_zero)
qed

text \<open>
  C5: for every concept and every search term, the score is the sum of: 100 if the code
  equals the term, else 50 if the code contains it; 90 if the display equals the term,
  else 70 if it starts with it, else 40 if it contains it; 20 if the definition contains
  the term; and for each designation 60 if its value equals the term, else 30 if it
  contains it; all ignoring case. A search term is never empty: the only call of the
  scorer is behind the guard of the handler, which lets through the terms of at least 2
  characters.
\<close>

theorem score_sum:
  assumes "T \<noteq> []"
  shows "calculateRelevanceScore C T = claimed_score C T"
  using assms by (simp add: score_guarded guarded_claimed)

theorem score_sum_witness:
  "''fever'' \<noteq> []
   \<and> calculateRelevanceScore (hd (cs_concepts (hd (codeSystem_table example_store)))) ''fever''
       = claimed_score (hd (cs_concepts (hd (codeSystem_table example_store)))) ''fever''
   \<and> claimed_score (hd (cs_concepts (hd (codeSystem_table example_store)))) ''fever'' = 70"
proof -
  have "claimed_score (hd (cs_concepts (hd (codeSystem_table example_store)))) ''fever'' = 70"
    by code_simp
  moreover have n: "''fever'' \<noteq> []" by simp
  ultimately show ?thesis
    using score_sum [OF n, of "hd (cs_concepts (hd (codeSystem_table example_store)))"]
    by simp
qed

text \<open>
  C6: the score is never negative, and it is 0 exactly when the term is contained,
  ignoring case, in none of the code, the display, the definition and the designation
  values of the concept.
\<close>

theorem score_zero_iff:
  "0 \<le> calculateRelevanceScore C T
   \<and> (calculateRelevanceScore C T = 0 \<longleftrightarrow>
        \<not> ci_contains (c_code C) T \<and> \<not> opt_contains (c_display C) T
        \<and> \<not> opt_contains (c_definition C) T
        \<and> list_all (\<lambda>d. \<not> ci_contains (d_value d) T) (designations_of C))"
  by (simp add: score_guarded guarded_score_nonneg guarded_score_zero)

theorem score_zero_iff_witness:
  "calculateRelevanceScore
     \<lparr>c_code = ''N002'', c_display = Some ''Hay fever'', c_definition = None,
      c_designations = Some [\<lparr>d_language = ''hi'', d_value = ''Jwara''\<rparr>]\<rparr> ''cough'' = 0
   \<and> \<not> ci_contains ''N002'' ''cough'' \<and> \<not> opt_contains (Some ''Hay fever'') ''cough''"
proof -
  have "calculateRelevanceScore
     \<lparr>c_code = ''N002'', c_display = Some ''Hay fever'', c_definition = None,
      c_designations = Some [\<lparr>d_language = ''hi'', d_value = ''Jwara''\<rparr>]\<rparr> ''cough'' = 0"
    by code_simp
  then show ?thesis
    using score_zero_iff [of "\<lparr>c_code = ''N002'', c_display = Some ''Hay fever'',
      c_definition = None,
      c_designations = Some [\<lparr>d_language = ''hi'', d_value = ''Jwara''\<rparr>]\<rparr>" "''cough''"]
    by simp
qed

section \<open>Translation Resolver\<close>

lemma foldl_push: "foldl (\<lambda>acc x. acc @ f x) acc xs = acc @ concat (map f xs)"
  by (induction xs arbitrary: acc) simp_all

lemma if_push: "(if c then acc @ xs else acc) = acc @ (if c then xs else [])"
  by simp

lemma concat_map_filter:
  "concat (map f (filter P xs)) = concat (map (\<lambda>x. if P x then f x else []) xs)"
  by (induction xs) simp_all

lemma truthy_restriction:
  "(if truthy targetSystem then targetUri cm = the targetSystem else True)
     = target_restriction targetSystem cm"
  by (cases targetSystem) (auto simp: target_restriction_def)

lemma find_filter_None: "filter P xs = [] \<Longrightarrow> List.find P xs = None"
  by (induction xs) (auto split: if_splits)

lemma find_filter_Some: "filter P xs \<noteq> [] \<Longrightarrow> List.find P xs = Some (filter P xs ! 0)"
  by (induction xs) auto

lemma reverse_step:
  "(if filter (\<lambda>t. t_code t = code) (e_targets e) \<noteq> []
    then [\<lparr>r_sourceSystem = sourceUri cm, r_sourceCode = e_code e,
           r_sourceDisplay = e_display e,
           r_equivalence =
             t_equivalence (filter (\<lambda>t. t_code t = code) (e_targets e) ! 0)\<rparr>]
    else []) = reverse_edge code cm e"
  by (cases "filter (\<lambda>t. t_code t = code) (e_targets e) = []")
     (simp_all add: reverse_edge_def find_filter_None find_filter_Some)

lemma reverse_edge_length:
  "length (reverse_edge code cm e)
     = (if list_ex (\<lambda>t. t_code t = code) (e_targets e) then 1 else 0)"
  by (auto simp: reverse_edge_def list_ex_iff find_None_iff split: option.splits)

text \<open>
  C8: a forward lookup returns one edge for every target of every element of the input
  code, in every group of every concept map of the source system (and of the target system,
  when one is given), in that order; no match ends the traversal. The edge of a target
  carries the target uri of its map and the code, display, equivalence and comment of
  the target.
\<close>

theorem forward_lookup_all_edges:
  "findMappingsForConcept st code system targetSystem =
     [\<lparr>m_targetSystem = targetUri cm,
       m_targetCode = t_code t,
       m_targetDisplay = t_display t,
       m_equivalence = t_equivalence t,
       m_comment = t_comment t\<rparr>.
        cm \<leftarrow> conceptMap_table st,
        sourceUri cm = system \<and> target_restriction targetSystem cm,
        g \<leftarrow> groups cm,
        e \<leftarrow> g_elements g,
        e_code e = code,
        t \<leftarrow> e_targets e]"
  by (simp add: findMappingsForConcept_def findMany_forward_def foldl_push truthy_restriction
      concat_map_filter comp_def cong: map_cong)

theorem forward_lookup_all_edges_witness:
  "findMappingsForConcept \<lparr>codeSystem_table = [], conceptMap_table = [fever_map, fever_map]\<rparr>
     ''N001'' namaste_url (Some icd11_url)
   = [\<lparr>m_targetSystem = icd11_url, m_targetCode = ''MD11.0'',
       m_targetDisplay = Some ''Fever, unspecified'', m_equivalence = ''wider'',
       m_comment = None\<rparr>,
      \<lparr>m_targetSystem = icd11_url, m_targetCode = ''MD11.0'',
       m_targetDisplay = Some ''Fever, unspecified'', m_equivalence = ''equivalent'',
       m_comment = None\<rparr>,
      \<lparr>m_targetSystem = icd11_url, m_targetCode = ''MD11.0'',
       m_targetDisplay = Some ''Fever, unspecified'', m_equivalence = ''wider'',
       m_comment = None\<rparr>,
      \<lparr>m_targetSystem = icd11_url, m_targetCode = ''MD11.0'',
       m_targetDisplay = Some ''Fever, unspecified'', m_equivalence = ''equivalent'',
       m_comment = None\<rparr>]"
  using forward_lookup_all_edges
    [of "\<lparr>codeSystem_table = [], conceptMap_table = [fever_map, fever_map]\<rparr>"
        "''N001''" namaste_url "Some icd11_url"]
  by (simp add: fever_map_def fever_target_def target_restriction_def namaste_url_def
      icd11_url_def)

text \<open>
  C9: a reverse lookup returns, for every element of every group of every concept map of
  the target system, one edge when the element has a target of the input code and none
  otherwise; the edge carries the source uri of the map, the code and the display of the
  element, and the equivalence of the first target of that code.
\<close>

theorem reverse_lookup_first_target:
  "findReverseMappingsForConcept st code system =
     [r. cm \<leftarrow> conceptMap_table st,
         targetUri cm = system,
         g \<leftarrow> groups cm,
         e \<leftarrow> g_elements g,
         r \<leftarrow> reverse_edge code cm e]
   \<and> length (reverse_edge code cm e)
       = (if list_ex (\<lambda>t. t_code t = code) (e_targets e) then 1 else 0)"
  by (simp add: findReverseMappingsForConcept_def findMany_reverse_def if_push
      foldl_push concat_map_filter comp_def reverse_step reverse_edge_length
      cong: map_cong if_cong)

theorem reverse_lookup_first_target_witness:
  "findReverseMappingsForConcept example_store ''MD11.0'' icd11_url
   = [\<lparr>r_sourceSystem = namaste_url, r_sourceCode = ''N001'',
       r_sourceDisplay = Some ''Fever (Jwara)'', r_equivalence = ''wider''\<rparr>]"
  using reverse_lookup_first_target [of example_store "''MD11.0''" icd11_url]
  by (simp add: example_store_def fever_map_def fever_target_def reverse_edge_def
      namaste_url_def icd11_url_def)


section \<open>Translate and dual-code lookup\<close>

lemma parse_parameters_snoc:
  "parse_parameters (Some (ps @ [p])) = (parse_parameters (Some ps))(p_name p := param_value p)"
  by (simp add: parse_parameters_def)

lemma parse_parameters_other:
  "k \<noteq> ''reverse'' \<Longrightarrow>
     parse_parameters (Some (filter (\<lambda>p. p_name p \<noteq> ''reverse'') ps)) k
       = parse_parameters (Some ps) k"
proof (induction ps rule: rev_induct)
  case Nil
  show ?case by simp
next
  case (snoc p ps)
  then show ?case
    by (cases "p_name p = ''reverse''") (simp_all add: parse_parameters_snoc)
qed

lemma translate_reads:
  assumes "parse_parameters a ''code'' = parse_parameters b ''code''"
    and "parse_parameters a ''system'' = parse_parameters b ''system''"
    and "parse_parameters a ''target'' = parse_parameters b ''target''"
  shows "translate st a = translate st b"
  using assms
  by (simp add: translate_def Let_def
      cong: jsvalue.case_cong option.case_cong prod.case_cong bool.case_cong)

lemma translate_without_reverse:
  "translate st (Some (filter (\<lambda>p. p_name p \<noteq> ''reverse'') ps)) = translate st (Some ps)"
  by (rule translate_reads) (simp_all add: parse_parameters_other)

text \<open>
  C10: two Translate requests that differ only in their \<open>reverse\<close> parameters (true,
  false, absent, or repeated) get the same response from every store: the handler binds
  the parameter and never reads it, and always looks the code up forward.
\<close>

theorem translate_ignores_reverse:
  assumes "filter (\<lambda>p. p_name p \<noteq> ''reverse'') ps = filter (\<lambda>p. p_name p \<noteq> ''reverse'') qs"
  shows "translate st (Some ps) = translate st (Some qs)"
  using assms translate_without_reverse [of st ps] translate_without_reverse [of st qs]
  by simp

theorem translate_ignores_reverse_witness:
  "filter (\<lambda>p. p_name p \<noteq> ''reverse'')
     [code_param ''N001'', reverse_param True, system_param namaste_url]
   = filter (\<lambda>p. p_name p \<noteq> ''reverse'') [code_param ''N001'', system_param namaste_url]
   \<and> translate example_store
        (Some [code_param ''N001'', reverse_param True, system_param namaste_url])
     = translate example_store (Some [code_param ''N001'', system_param namaste_url])"
  using translate_ignores_reverse
    [of "[code_param ''N001'', reverse_param True, system_param namaste_url]"
        "[code_param ''N001'', system_param namaste_url]" example_store]
  by (simp add: code_param_def reverse_param_def system_param_def)

lemma translate_cases:
  assumes "parse_parameters ps ''code'' = JString code" "code \<noteq> []"
    and "parse_parameters ps ''system'' = JString system" "system \<noteq> []"
    and "parse_parameters ps ''target'' = target" "target \<noteq> JBool True"
  shows "translate st ps =
     (case findFirst_concept st code system of
        None \<Rightarrow> Inr [ValueBoolean ''result'' False,
                     ValueString ''message'' (Some (not_found_message code system))]
      | Some (codeSystem, sourceConcept) \<Rightarrow>
          if findMappingsForConcept st code system (target_of target) = []
          then Inr [ValueBoolean ''result'' False,
                    ValueString ''message''
                      (Some (no_mappings_message code system (target_of target)))]
          else Inr ([ValueBoolean ''result'' True,
                     ValueCoding ''source'' (cs_url codeSystem) (c_code sourceConcept)
                       (c_display sourceConcept)]
                    @ map match_part (findMappingsForConcept st code system (target_of target))))"
proof (cases target)
  case Undefined
  with assms show ?thesis by (simp add: translate_def Let_def split: option.splits)
next
  case (JBool b)
  with assms have "b = False" by simp
  with JBool assms show ?thesis by (simp add: translate_def Let_def split: option.splits)
next
  case (JString t)
  with assms show ?thesis by (simp add: translate_def Let_def split: option.splits)
qed

lemma match_part_name: "part_name (match_part m) = ''match''"
  by (simp add: match_part_def)

text \<open>
  C1, amended: for a request whose code and system are non-empty strings (and whose
  target is not the boolean \<open>true\<close>), Translate answers \<open>result = false\<close> with no match and
  the message that the code was not found when the source system does not have the code,
  and \<open>result = false\<close> with no match and the message that no mappings were found when
  it has the code and the forward lookup is empty; \<open>result\<close> is true exactly when the
  code is known and the lookup is not empty.
\<close>

theorem translate_unmapped:
  assumes "parse_parameters ps ''code'' = JString code" "code \<noteq> []"
    and "parse_parameters ps ''system'' = JString system" "system \<noteq> []"
    and "parse_parameters ps ''target'' = target" "target \<noteq> JBool True"
  shows "(findFirst_concept st code system = None \<longrightarrow>
            translate st ps = Inr [ValueBoolean ''result'' False,
               ValueString ''message'' (Some (not_found_message code system))])
       \<and> (findFirst_concept st code system \<noteq> None
            \<and> findMappingsForConcept st code system (target_of target) = [] \<longrightarrow>
            translate st ps = Inr [ValueBoolean ''result'' False,
               ValueString ''message''
                 (Some (no_mappings_message code system (target_of target)))])
       \<and> response_found (translate st ps)
           = Some (findFirst_concept st code system \<noteq> None
                   \<and> findMappingsForConcept st code system (target_of target) \<noteq> [])"
  using translate_cases [OF assms, of st]
  by (auto split: option.splits)


text \<open>
  C1, as stated: a known code without a mapping gets \<open>found = true\<close>. In the example
  store \<open>N002\<close> is a concept of the source system and has no mapping, and the response
  says \<open>result = false\<close>.
\<close>

theorem translate_unmapped_counterexample:
  "findFirst_concept example_store ''N002'' namaste_url \<noteq> None
   \<and> findMappingsForConcept example_store ''N002'' namaste_url None = []
   \<and> response_found
        (translate example_store (Some [code_param ''N002'', system_param namaste_url]))
       = Some False"
  by code_simp

theorem translate_unmapped_witness:
  "translate example_store (Some [code_param ''N002'', system_param namaste_url])
     = Inr [ValueBoolean ''result'' False,
            ValueString ''message'' (Some (no_mappings_message ''N002'' namaste_url None))]
   \<and> response_found
        (translate example_store (Some [code_param ''N002'', system_param namaste_url]))
       = Some False"
proof -
  let ?ps = "Some [code_param ''N002'', system_param namaste_url]"
  have c: "parse_parameters ?ps ''code'' = JString ''N002''"
    by (simp add: parse_parameters_def code_param_def system_param_def param_value_def)
  have s: "parse_parameters ?ps ''system'' = JString namaste_url"
    by (simp add: parse_parameters_def code_param_def system_param_def param_value_def
        namaste_url_def)
  have t: "parse_parameters ?ps ''target'' = Undefined"
    by (simp add: parse_parameters_def code_param_def system_param_def param_value_def)
  have n: "''N002'' \<noteq> []" "namaste_url \<noteq> []" "Undefined \<noteq> JBool True"
    by (simp_all add: namaste_url_def)
  have f: "findFirst_concept example_store ''N002'' namaste_url \<noteq> None"
    by code_simp
  have m: "findMappingsForConcept example_store ''N002'' namaste_url None = []"
    by code_simp
  show ?thesis
    using translate_unmapped [OF c n(1) s n(2) t n(3), of example_store] f m
    by simp
qed

lemma icd11_lookup_namasteCode:
  "icd11_lookup st (rq\<lparr>namasteCode := x\<rparr>) urls = icd11_lookup st rq urls"
  by (induction urls) (simp_all split: option.splits)

lemma namaste_lookup_icd11Code:
  "namaste_lookup st (rq\<lparr>icd11Code := x\<rparr>) = namaste_lookup st rq"
  by (simp add: namaste_lookup_def split: option.splits)

lemma namaste_lookup_unknown:
  "findFirst_concept st (the (namasteCode rq)) namaste_url = None
     \<Longrightarrow> namaste_lookup st rq = []"
  by (simp add: namaste_lookup_def namaste_url_def)

lemma icd11_lookup_unknown:
  "list_all (\<lambda>u. findFirst_concept st (the (icd11Code rq)) u = None) urls
     \<Longrightarrow> icd11_lookup st rq urls = []"
  by (induction urls) simp_all

text \<open>
  C2, amended: a dual-code lookup without any code fails with the validation error. With
  both codes supplied and one of them unknown, the call does not fail and its response is
  the response of the request that supplies the other code alone: the other code is
  reported as usual, and nothing is reported for the unknown one.
\<close>

theorem dual_code_lookup_partial:
  "(\<not> truthy (namasteCode rq) \<and> \<not> truthy (icd11Code rq) \<longrightarrow>
      dual_code_lookup st rq
        = Inl (ValidationError ''Either namasteCode or icd11Code parameter is required''))
   \<and> (truthy (namasteCode rq) \<and> truthy (icd11Code rq)
        \<and> findFirst_concept st (the (namasteCode rq)) namaste_url = None \<longrightarrow>
      dual_code_lookup st rq = dual_code_lookup st (rq\<lparr>namasteCode := None\<rparr>)
      \<and> dual_code_lookup st rq
          = Inr (ValueBoolean ''result'' (length (icd11_lookup st rq icd11Systems) > 1)
                 # icd11_lookup st rq icd11Systems))
   \<and> (truthy (namasteCode rq) \<and> truthy (icd11Code rq)
        \<and> list_all (\<lambda>u. findFirst_concept st (the (icd11Code rq)) u = None) icd11Systems \<longrightarrow>
      dual_code_lookup st rq = dual_code_lookup st (rq\<lparr>icd11Code := None\<rparr>)
      \<and> dual_code_lookup st rq
          = Inr (ValueBoolean ''result'' (length (namaste_lookup st rq) > 1)
                 # namaste_lookup st rq))"
  by (simp add: dual_code_lookup_def Let_def icd11_lookup_namasteCode
      namaste_lookup_icd11Code icd11_lookup_unknown namaste_lookup_unknown)

text \<open>
  C2, as stated: the response has an explicit not-found status in the slot of the unknown
  code. In the example store \<open>ZZZZ\<close> is no code of the first system; the response reports
  the second code and has no entry at all for the first.
\<close>

theorem dual_code_lookup_partial_counterexample:
  "findFirst_concept example_store ''ZZZZ'' namaste_url = None
   \<and> dual_code_lookup example_store (dual_request_of (Some ''ZZZZ'') (Some ''MD11.0''))
     = Inr [ValueBoolean ''result'' True,
            Part ''icd11'' [ValueCoding ''code'' icd11_url ''MD11.0'' (Some ''Fever, unspecified'')],
            Part ''mappedNamasteCodes''
              [Part ''reverseMapping''
                 [ValueCoding ''sourceCode'' namaste_url ''N001'' (Some ''Fever (Jwara)''),
                  ValueCode ''equivalence'' ''wider'']]]
   \<and> namaste_slot
        [ValueBoolean ''result'' True,
         Part ''icd11'' [ValueCoding ''code'' icd11_url ''MD11.0'' (Some ''Fever, unspecified'')],
         Part ''mappedNamasteCodes''
           [Part ''reverseMapping''
              [ValueCoding ''sourceCode'' namaste_url ''N001'' (Some ''Fever (Jwara)''),
               ValueCode ''equivalence'' ''wider'']]] = []"
  by code_simp

theorem dual_code_lookup_partial_witness:
  "dual_code_lookup example_store (dual_request_of None None)
     = Inl (ValidationError ''Either namasteCode or icd11Code parameter is required'')
   \<and> dual_code_lookup example_store (dual_request_of (Some ''ZZZZ'') (Some ''MD11.0''))
     = dual_code_lookup example_store (dual_request_of None (Some ''MD11.0''))
   \<and> dual_code_lookup example_store (dual_request_of (Some ''N001'') (Some ''ZZZZ''))
     = dual_code_lookup example_store (dual_request_of (Some ''N001'') None)"
proof -
  have a: "findFirst_concept example_store ''ZZZZ'' namaste_url = None"
    by code_simp
  have b: "list_all (\<lambda>u. findFirst_concept example_store ''ZZZZ'' u = None) icd11Systems"
    by code_simp
  show ?thesis
    using dual_code_lookup_partial [of "dual_request_of None None" example_store]
      dual_code_lookup_partial [of "dual_request_of (Some ''ZZZZ'') (Some ''MD11.0'')" example_store]
      dual_code_lookup_partial [of "dual_request_of (Some ''N001'') (Some ''ZZZZ'')" example_store]
      a b
    by (simp add: dual_request_of_def)
qed


section \<open>Autocomplete\<close>

lemma search_system_error: "search_system st rq s k = Inl e \<Longrightarrow> e = PrismaValidationError"
  by (auto simp: search_system_def Let_def split: url_lookup.splits if_splits option.splits)

lemma search_systems_error:
  "search_systems st rq s acc keys = Inl e \<Longrightarrow> e = PrismaValidationError"
  by (induction keys arbitrary: acc) (auto split: sum.splits dest: search_system_error)


text \<open>
  C4, amended: Autocomplete fails with the validation error exactly when the search term
  is absent or has fewer than 2 characters as it was sent; it is not trimmed.
\<close>

theorem autocomplete_guard:
  "is_invalid_argument (autocomplete st rq)
     \<longleftrightarrow> (case q_search rq of None \<Rightarrow> True | Some s \<Rightarrow> length s < 2)"
proof (cases "q_search rq")
  case None
  then show ?thesis by (simp add: autocomplete_def)
next
  case (Some s)
  show ?thesis
  proof (cases "length s < 2")
    case True
    with Some show ?thesis by (simp add: autocomplete_def)
  next
    case False
    then have "s \<noteq> []" by auto
    with False Some show ?thesis
      by (auto simp: autocomplete_def Let_def split: sum.splits dest: search_systems_error)
  qed
qed

text \<open>
  C4, as stated: a search term that has fewer than 2 characters once trimmed is rejected.
  The term of two spaces is empty once trimmed, and it is searched for.
\<close>

theorem autocomplete_guard_counterexample:
  "length (trim ''  '') < 2
   \<and> autocomplete example_store (fever_request ''  '' 20) = Inr []
   \<and> \<not> is_invalid_argument (autocomplete example_store (fever_request ''  '' 20))"
  by code_simp

theorem autocomplete_guard_witness:
  "is_invalid_argument (autocomplete example_store (fever_request ''a'' 20))
   \<and> \<not> is_invalid_argument (autocomplete example_store (fever_request ''fe'' 20))"
  using autocomplete_guard [of example_store "fever_request ''a'' 20"]
    autocomplete_guard [of example_store "fever_request ''fe'' 20"]
  by (simp add: fever_request_def)


lemma insert_by_score:
  "insert_by (\<lambda>a b. res_score b - res_score a) x xs = insort_key (\<lambda>r. - res_score r) x xs"
  by (induction xs) simp_all

lemma sort_by_score_sort_key: "sort_by_score xs = sort_key (\<lambda>r. - res_score r) xs"
  by (induction xs) (simp_all add: sort_by_score_def array_sort_def insert_by_score)





lemma ilike_any: "ilike ''%'' s"
  by (induction s) simp_all

lemma ilike_skip: "ilike ps s \<Longrightarrow> ilike (CHR ''%'' # ps) s"
  by simp

lemma ilike_letter:
  "p \<noteq> CHR ''%'' \<Longrightarrow> p \<noteq> CHR ''_'' \<Longrightarrow> p \<noteq> CHR 0x5C \<Longrightarrow>
     ilike (p # ps) (c # cs) = (lower_char c = lower_char p \<and> ilike ps cs)"
  by simp

lemma contains_fe: "contains_insensitive (''fe'' @ x) ''fe''"
proof -
  have "ilike ''e%'' (CHR ''e'' # x)"
    using ilike_any [of x] by (subst ilike_letter) (simp_all del: ilike.simps)
  then have "ilike ''fe%'' (CHR ''f'' # CHR ''e'' # x)"
    by (subst ilike_letter) (simp_all del: ilike.simps)
  then have "ilike ''%fe%'' (CHR ''f'' # CHR ''e'' # x)"
    by (rule ilike_skip)
  then show ?thesis by (simp add: contains_insensitive_def del: ilike.simps)
qed

lemma concept_where_many: "c \<in> set many_concepts \<Longrightarrow> concept_where d ''fe'' c"
proof -
  assume "c \<in> set many_concepts"
  then obtain i where "c_code c = ''fe'' @ replicate i (CHR ''a'')"
    by (auto simp: many_concepts_def)
  then have "contains_insensitive (c_code c) ''fe''"
    using contains_fe [of "replicate i (CHR ''a'')"] by simp
  then show ?thesis by (simp add: concept_where_def)
qed

lemma find_concepts_many: "length (find_concepts d ''fe'' 52 (many_system u n)) = 26"
proof -
  have "filter (concept_where d ''fe'') many_concepts = many_concepts"
    by (simp add: concept_where_many)
  moreover have "length many_concepts = 26"
    by (simp add: many_concepts_def)
  ultimately show ?thesis
    by (simp add: find_concepts_def many_system_def prisma_take_def)
qed

lemma search_large_namaste:
  "search_system large_store (fever_request ''fe'' 52) ''fe'' ''namaste''
     = Inr (map (make_result large_store (fever_request ''fe'' 52) ''fe'' ''namaste''
                  (many_system namaste_url ''NAMASTE''))
              (find_concepts True ''fe'' 52 (many_system namaste_url ''NAMASTE'')))"
  using find_concepts_many [of True namaste_url "''NAMASTE''"]
  by (simp add: search_system_def systemUrls_def fever_request_def large_store_def
      many_system_def namaste_url_def includeDesignations_def Let_def)

lemma search_large_unani:
  "search_system large_store (fever_request ''fe'' 52) ''fe'' ''unani''
     = Inr (map (make_result large_store (fever_request ''fe'' 52) ''fe'' ''unani''
                  (many_system unani_url ''UNANI''))
              (find_concepts True ''fe'' 52 (many_system unani_url ''UNANI'')))"
  using find_concepts_many [of True unani_url "''UNANI''"]
  by (simp add: search_system_def systemUrls_def fever_request_def large_store_def
      many_system_def namaste_url_def unani_url_def includeDesignations_def Let_def)

lemma search_large_icd11:
  "search_system large_store (fever_request ''fe'' 52) ''fe'' ''icd11-tm2'' = Inr []"
  by (simp add: search_system_def systemUrls_def fever_request_def large_store_def
      many_system_def namaste_url_def unani_url_def)

lemma default_systems:
  "systemsToSearch ''namaste,icd11-tm2,unani'' = [''namaste'', ''icd11-tm2'', ''unani'']"
  by code_simp

text \<open>
  C3 at a request with \<open>limit = 52\<close>: each of two code systems has 26 concepts that
  match, the query of each system takes at most \<open>min(52, 50)\<close> of them, and the merged
  list is cut at 52, not at 50: the response has 52 matches.
\<close>

theorem autocomplete_exceeds_maximum:
  "map_sum id length (autocomplete large_store (fever_request ''fe'' 52)) = Inr 52"
proof -
  have q: "q_search (fever_request ''fe'' 52) = Some ''fe''"
    "q_systems (fever_request ''fe'' 52) = ''namaste,icd11-tm2,unani''"
    "q_limit (fever_request ''fe'' 52) = Some 52"
    by (simp_all add: fever_request_def)
  show ?thesis
    by (simp add: autocomplete_def q default_systems search_large_namaste
        search_large_unani search_large_icd11 slice0_def sort_by_score_sort_key
        find_concepts_many Let_def)
qed

lemma autocomplete_at_most_limit:
  assumes "autocomplete st rq = Inr rs" and "q_limit rq = Some n" and "0 \<le> n"
  shows "length rs \<le> nat n"
  using assms
  by (auto simp: autocomplete_def Let_def slice0_def split: if_splits sum.splits)

lemma response_match_parameters:
  "filter (\<lambda>p. part_name p = ''match'') (autocomplete_response search keys rs)
     = map2 match_parameter rs [0..<length rs]"
proof -
  have "filter (\<lambda>p. part_name p = ''match'') (map2 match_parameter rs ns)
          = map2 match_parameter rs ns" for ns
    by (rule filter_True) (auto simp: match_parameter_def)
  then show ?thesis by (simp add: autocomplete_response_def)
qed

lemma response_match_count:
  "autocomplete st rq = Inr rs \<Longrightarrow>
     \<exists>ps. autocomplete_handler st rq = Inr ps
          \<and> length (filter (\<lambda>p. part_name p = ''match'') ps) = length rs"
  by (simp add: autocomplete_handler_def response_match_parameters)


theorem autocomplete_exceeds_maximum_witness:
  "q_limit (fever_request ''fe'' 52) = Some 52
   \<and> length (the (q_search (fever_request ''fe'' 52))) = 2
   \<and> map_sum id (\<lambda>rs. min 52 50 < length rs)
        (autocomplete large_store (fever_request ''fe'' 52)) = Inr True"
proof -
  have "map_sum id (\<lambda>rs. min 52 50 < length rs) r = Inr True"
    if "map_sum id length r = Inr 52" for r :: "error + result list"
    using that by (cases r) simp_all
  from this [OF autocomplete_exceeds_maximum] show ?thesis
    by (simp add: fever_request_def)
qed

end
